theory Spec2Isabelle
  imports Complex_Main "HOL-Library.Sublist"
begin

section \<open>Python strings\<close>

text \<open>
  Strings are \<^typ>\<open>string\<close> (lists of 8-bit characters).  Python floats are modelled by
  \<^typ>\<open>real\<close>: every arithmetic operation is taken exact, rounding is outside this model.
\<close>

text \<open>\<^verbatim>\<open>sub in s\<close> on Python strings: \<open>sub\<close> occurs in \<open>s\<close> as a contiguous block.\<close>

fun str_contains :: "string \<Rightarrow> string \<Rightarrow> bool" where
  "str_contains sub [] = (sub = [])"
| "str_contains sub (c # cs) = (prefix sub (c # cs) \<or> str_contains sub cs)"

text \<open>\<^verbatim>\<open>s.startswith(p)\<close> and \<^verbatim>\<open>s.endswith(p)\<close>.\<close>

definition startswith :: "string \<Rightarrow> string \<Rightarrow> bool" where
  "startswith s p = prefix p s"

definition endswith :: "string \<Rightarrow> string \<Rightarrow> bool" where
  "endswith s p = prefix (rev p) (rev s)"

text \<open>
  \<^verbatim>\<open>s.replace(old, new)\<close>: every non-overlapping occurrence of \<open>old\<close>, found left to right,
  is replaced; the inserted text is not scanned again.  For the empty \<open>old\<close> Python inserts
  \<open>new\<close> before every character and at the end.
\<close>

fun str_replace :: "string \<Rightarrow> string \<Rightarrow> string \<Rightarrow> string" where
  "str_replace [] old new = (if old = [] then new else [])"
| "str_replace (c # cs) old new =
     (if old = [] then new @ c # str_replace cs old new
      else if prefix old (c # cs) then new @ str_replace (drop (length old - 1) cs) old new
      else c # str_replace cs old new)"

text \<open>
  \<^verbatim>\<open>s.strip()\<close>: the ASCII characters for which \<^verbatim>\<open>str.isspace\<close> holds are removed at both ends
  (tab, line feed, vertical tab, form feed, carriage return, the four separators
  \<open>0x1C\<close>..\<open>0x1F\<close> and the space).
\<close>

definition is_space :: "char \<Rightarrow> bool" where
  "is_space c = (c \<in> set [CHR 0x09, CHR 0x0A, CHR 0x0B, CHR 0x0C, CHR 0x0D,
                           CHR 0x1C, CHR 0x1D, CHR 0x1E, CHR 0x1F, CHR 0x20])"

definition str_strip :: "string \<Rightarrow> string" where
  "str_strip s = rev (dropWhile is_space (rev (dropWhile is_space s)))"



section \<open>Python values and exceptions\<close>

text \<open>
  The values that \<^verbatim>\<open>json.loads\<close> returns and that the dictionaries of the source hold.  A
  dictionary is an association list in insertion order.
\<close>

datatype json =
    JNull
  | JBool bool
  | JInt int
  | JFloat real
  | JStr string
  | JArr "json list"
  | JObj "(string \<times> json) list"

text \<open>An exception raised by a library or a remote call, with the text of \<^verbatim>\<open>str(e)\<close>.\<close>

datatype exn = Exn string

fun exn_str :: "exn \<Rightarrow> string" where
  "exn_str (Exn m) = m"

text \<open>\<^verbatim>\<open>d[k] = v\<close> on a dictionary: an existing key keeps its place, a new key goes last.\<close>

fun dict_set :: "string \<Rightarrow> json \<Rightarrow> (string \<times> json) list \<Rightarrow> (string \<times> json) list" where
  "dict_set k v [] = [(k, v)]"
| "dict_set k v ((k', v') # kvs) =
     (if k = k' then (k, v) # kvs else (k', v') # dict_set k v kvs)"

text \<open>
  \<^verbatim>\<open>key in x\<close> for a string key: membership in the keys of a dictionary, in the elements of a
  list, substring of a string; a \<^verbatim>\<open>TypeError\<close> on the other values.
\<close>

fun py_in :: "string \<Rightarrow> json \<Rightarrow> exn + bool" where
  "py_in k (JObj kvs) = Inr (k \<in> set (map fst kvs))"
| "py_in k (JArr xs) = Inr (JStr k \<in> set xs)"
| "py_in k (JStr s) = Inr (str_contains k s)"
| "py_in k _ = Inl (Exn ''argument is not iterable'')"

text \<open>\<^verbatim>\<open>x[key]\<close> for a string key: only a dictionary can be subscripted by a string.\<close>

fun py_getitem :: "json \<Rightarrow> string \<Rightarrow> exn + json" where
  "py_getitem (JObj kvs) k =
     (case map_of kvs k of None \<Rightarrow> Inl (Exn k) | Some v \<Rightarrow> Inr v)"
| "py_getitem _ k = Inl (Exn ''indices must be integers'')"

text \<open>\<^verbatim>\<open>len(x)\<close>: defined on strings, lists and dictionaries, a \<^verbatim>\<open>TypeError\<close> otherwise.\<close>

fun py_len :: "json \<Rightarrow> exn + nat" where
  "py_len (JStr s) = Inr (length s)"
| "py_len (JArr xs) = Inr (length xs)"
| "py_len (JObj kvs) = Inr (length (remdups (map fst kvs)))"
| "py_len _ = Inl (Exn ''object has no len()'')"

text \<open>\<^verbatim>\<open>int(x)\<close> on a float: truncation towards zero.\<close>

definition py_int :: "real \<Rightarrow> int" where
  "py_int x = (if 0 \<le> x then \<lfloor>x\<rfloor> else \<lceil>x\<rceil>)"

section \<open>The configuration document (models/YAMLConfig.py)\<close>

record SamplingParameters =
  sp_temperature_range :: "real list"
  sp_top_p :: real

record DatasetParameters =
  dp_output_format :: string
  dp_task_description :: string
  dp_max_tokens :: int
  dp_seed_value :: int
  dp_validation_rules :: "string list"

text \<open>
  The fields of \<^verbatim>\<open>YAMLConfig\<close> that the pipeline reads or writes.  The performance block
  holds a counter and five sums; the class has no field for an average.
\<close>

record YAMLConfig =
  name :: string
  number_of_samples :: int
  model :: string
  user_prompt :: string
  sampling_parameters :: "SamplingParameters option"
  dataset_parameters :: "DatasetParameters option"
  example_inputs :: "string list"
  dataset_id :: "string option"
  dataset_uploaded :: bool
  dataset_upload_response :: json
  total_responses_generated :: int
  tokens_per_second_sum :: real
  time_to_first_token_sum :: real
  queries_per_second_sum :: real
  average_latency_sum :: real
  total_tokens_sum :: int






text \<open>The properties that compute the averages on access.\<close>

definition tokens_per_second :: "'a YAMLConfig_scheme \<Rightarrow> real" where
  "tokens_per_second c =
     (if total_responses_generated c > 0
      then tokens_per_second_sum c / real_of_int (total_responses_generated c) else 0)"

definition time_to_first_token :: "'a YAMLConfig_scheme \<Rightarrow> real" where
  "time_to_first_token c =
     (if total_responses_generated c > 0
      then time_to_first_token_sum c / real_of_int (total_responses_generated c) else 0)"

definition queries_per_second :: "'a YAMLConfig_scheme \<Rightarrow> real" where
  "queries_per_second c =
     (if total_responses_generated c > 0
      then queries_per_second_sum c / real_of_int (total_responses_generated c) else 0)"

definition average_latency :: "'a YAMLConfig_scheme \<Rightarrow> real" where
  "average_latency c =
     (if total_responses_generated c > 0
      then average_latency_sum c / real_of_int (total_responses_generated c) else 0)"

definition average_tokens :: "'a YAMLConfig_scheme \<Rightarrow> real" where
  "average_tokens c =
     (if total_responses_generated c > 0
      then real_of_int (total_tokens_sum c) / real_of_int (total_responses_generated c) else 0)"

section \<open>The Job Expander (process_yaml_config in modules/processor.py)\<close>

datatype error = DoesNotExist | TypeError | ValueError | IndexError

record WorkItem =
  wi_yaml_config_id :: string
  wi_temperature :: real
  wi_top_p :: "real option"
  wi_prompt :: string
  wi_max_tokens :: "int option"
  wi_seed_value :: "int option"
  wi_model :: string
  wi_output_format :: "string option"

definition input_placeholder :: string where
  "input_placeholder = ''{input_request}''"

definition placeholder_trailer :: string where
  "placeholder_trailer = ''\<newline>\<newline>Context for this dataset: {input_request}''"

definition instruction_marker :: string where
  "instruction_marker = ''IMPORTANT: Return ONLY the JSON object''"

definition json_instructions :: string where
  "json_instructions = ''\<newline>            \<newline>IMPORTANT: Return ONLY the JSON object with the messages array containing exactly one user message and one assistant message.\<newline>Do not include any explanations or additional text. The output must be valid JSON.\<newline>''"


text \<open>The two repairs of the prompt template, in the order of the source (lines 190 to 209).\<close>

definition repair_prompt_template :: "string \<Rightarrow> string" where
  "repair_prompt_template prompt_template =
     (let t1 = (if \<not> str_contains input_placeholder prompt_template
                then prompt_template @ placeholder_trailer else prompt_template);
          t2 = (if \<not> str_contains instruction_marker t1
                then t1 @ json_instructions else t1)
      in t2)"







section \<open>The Generation Client (modules/llm_client.py)\<close>

text \<open>
  The metrics dictionary: every dictionary the client returns has exactly these four keys.
\<close>

record metrics =
  m_time_to_first_token :: real
  m_total_tokens :: int
  m_tokens_per_second :: real
  m_total_time :: real

definition zero_metrics :: metrics where
  "zero_metrics = \<lparr> m_time_to_first_token = 0, m_total_tokens = 0,
                     m_tokens_per_second = 0, m_total_time = 0 \<rparr>"

text \<open>The arguments of \<^verbatim>\<open>chat.completions.create\<close>.\<close>

record request =
  rq_model :: string
  rq_prompt :: string
  rq_temperature :: real
  rq_top_p :: "real option"
  rq_max_tokens :: "int option"
  rq_response_format :: bool
  rq_stream :: bool

text \<open>
  What the backend does on a streamed request.  A chunk is the list of its choices, each
  with the optional text of \<^verbatim>\<open>delta.content\<close>; it comes with the reading of \<^verbatim>\<open>time.time()\<close>
  at its delivery.  The request itself may raise, and so may the iterator after the
  last chunk.
\<close>

type_synonym chunk = "string option list"

record stream_call =
  create_error :: "exn option"
  clock_start :: real
  chunks :: "(real \<times> chunk) list"
  stream_error :: "exn option"
  clock_end :: real

text \<open>
  The backend: a non-streamed request returns the texts of the choices of the completion or
  raises; a streamed one behaves as a \<open>stream_call\<close>.
\<close>

record backend =
  complete :: "request \<Rightarrow> exn + string option list"
  stream :: "request \<Rightarrow> stream_call"

record LLMClient =
  lc_api_key :: "string option"
  lc_model :: string
  lc_max_tokens :: int
  lc_temperature :: real

text \<open>The requests that the four operations send.\<close>

definition text_request :: "LLMClient \<Rightarrow> string \<Rightarrow> request" where
  "text_request self prompt =
     \<lparr> rq_model = lc_model self, rq_prompt = prompt, rq_temperature = lc_temperature self,
       rq_top_p = None, rq_max_tokens = Some (lc_max_tokens self),
       rq_response_format = False, rq_stream = False \<rparr>"

definition structured_request :: "LLMClient \<Rightarrow> string \<Rightarrow> request" where
  "structured_request self prompt =
     \<lparr> rq_model = lc_model self, rq_prompt = prompt, rq_temperature = lc_temperature self,
       rq_top_p = None, rq_max_tokens = Some (lc_max_tokens self),
       rq_response_format = True, rq_stream = False \<rparr>"

definition stream_request ::
  "bool \<Rightarrow> string \<Rightarrow> real \<Rightarrow> real option \<Rightarrow> int option \<Rightarrow> string \<Rightarrow> request" where
  "stream_request structured prompt temperature top_p' max_tokens' model' =
     \<lparr> rq_model = model', rq_prompt = prompt, rq_temperature = temperature,
       rq_top_p = top_p', rq_max_tokens = max_tokens',
       rq_response_format = structured, rq_stream = True \<rparr>"

text \<open>\<^verbatim>\<open>generate_text\<close> (the calls in the repository pass no documents).\<close>

definition generate_text :: "LLMClient \<Rightarrow> backend \<Rightarrow> string \<Rightarrow> string option" where
  "generate_text self b prompt =
     (case complete b (text_request self prompt) of
        Inl e \<Rightarrow> Some (''Error generating response: '' @ exn_str e)
      | Inr [] \<Rightarrow> Some (''Error generating response: '' @ ''list index out of range'')
      | Inr (content # _) \<Rightarrow> content)"

text \<open>The schema handed to the structured operations: the \<^verbatim>\<open>model_fields\<close> of a pydantic model.\<close>

datatype annotation = AStr | AInt | AFloat | ABool | AList | ADict | AOther string

record FieldInfo =
  fi_annotation :: annotation
  fi_default_factory :: "json option"

type_synonym schema = "(string \<times> FieldInfo) list"

text \<open>The default of one field in the exception handler of \<^verbatim>\<open>generate_structured_json\<close>.\<close>

definition default_value :: "exn \<Rightarrow> string \<Rightarrow> FieldInfo \<Rightarrow> json" where
  "default_value e field_name field =
     (if field_name = ''explanation'' then JStr (''Error generating explanation: '' @ exn_str e)
      else if fi_annotation field = AStr then JStr ''''
      else if fi_annotation field = AInt \<or> fi_annotation field = AFloat then JInt 0
      else if fi_annotation field = ABool then JBool False
      else if fi_annotation field = AList then JArr []
      else if fi_annotation field = ADict then JObj []
      else (case fi_default_factory field of Some v \<Rightarrow> v | None \<Rightarrow> JNull))"

definition default_values :: "exn \<Rightarrow> schema \<Rightarrow> (string \<times> json) list" where
  "default_values e model_fields =
     fold (\<lambda>(field_name, field) d. dict_set field_name (default_value e field_name field) d)
          model_fields []"

text \<open>The body of the \<^verbatim>\<open>try\<close> block of \<^verbatim>\<open>generate_structured_json\<close>.\<close>

definition structured_json_try ::
  "LLMClient \<Rightarrow> backend \<Rightarrow> (string \<Rightarrow> exn + json) \<Rightarrow> schema \<Rightarrow> string \<Rightarrow> exn + json" where
  "structured_json_try self b json_loads model_fields prompt =
     (case complete b (structured_request self prompt) of
        Inl e \<Rightarrow> Inl e
      | Inr [] \<Rightarrow> Inl (Exn ''list index out of range'')
      | Inr (None # _) \<Rightarrow> Inl (Exn ''the JSON object must be str, bytes or bytearray'')
      | Inr (Some json_content # _) \<Rightarrow>
          (case json_loads json_content of
             Inl e \<Rightarrow> Inl e
           | Inr parsed_content \<Rightarrow>
               if ''explanation'' \<in> set (map fst model_fields) then
                 (case py_in ''explanation'' parsed_content of
                    Inl e \<Rightarrow> Inl e
                  | Inr True \<Rightarrow> Inr parsed_content
                  | Inr False \<Rightarrow>
                      (case parsed_content of
                         JObj kvs \<Rightarrow> Inr (JObj (dict_set ''explanation''
                                      (JStr ''No explanation provided by the model.'') kvs))
                       | _ \<Rightarrow> Inl (Exn ''object does not support item assignment'')))
               else Inr parsed_content))"

definition generate_structured_json ::
  "LLMClient \<Rightarrow> backend \<Rightarrow> (string \<Rightarrow> exn + json) \<Rightarrow> schema \<Rightarrow> string \<Rightarrow> json" where
  "generate_structured_json self b json_loads model_fields prompt =
     (case structured_json_try self b json_loads model_fields prompt of
        Inr parsed_content \<Rightarrow> parsed_content
      | Inl e \<Rightarrow> JObj (default_values e model_fields))"

text \<open>
  The loop over the chunks of a streamed response, with the three variables it updates.
  The time of the first token is taken at the first chunk delivered.
\<close>

fun consume_stream ::
  "real \<Rightarrow> (real \<times> chunk) list \<Rightarrow> real option \<Rightarrow> real \<Rightarrow> string
     \<Rightarrow> exn + (real option \<times> real \<times> string)" where
  "consume_stream start_time [] first_token_time total_tokens response_text =
     Inr (first_token_time, total_tokens, response_text)"
| "consume_stream start_time ((now, choices) # rest) first_token_time total_tokens response_text =
     (let first_token_time' =
            (case first_token_time of None \<Rightarrow> Some (now - start_time) | Some t \<Rightarrow> Some t)
      in case choices of
           [] \<Rightarrow> Inl (Exn ''list index out of range'')
         | content # _ \<Rightarrow>
             (case content of
                None \<Rightarrow> consume_stream start_time rest first_token_time' total_tokens response_text
              | Some s \<Rightarrow>
                  if s = [] then
                    consume_stream start_time rest first_token_time' total_tokens response_text
                  else
                    consume_stream start_time rest first_token_time'
                      (total_tokens + real (length s) / 4) (response_text @ s)))"

text \<open>
  The body shared, line by line, by \<^verbatim>\<open>generate_response_with_metrics\<close> and
  \<^verbatim>\<open>generate_structured_response_with_metrics\<close>: they differ in the request only.
\<close>

definition measure_stream :: "stream_call \<Rightarrow> string \<times> metrics" where
  "measure_stream call =
     (case create_error call of
        Some e \<Rightarrow> ('''', zero_metrics)
      | None \<Rightarrow>
          (case consume_stream (clock_start call) (chunks call) None 0 [] of
             Inl e \<Rightarrow> ('''', zero_metrics)
           | Inr (first_token_time, total_tokens, response_text) \<Rightarrow>
               (case stream_error call of
                  Some e \<Rightarrow> ('''', zero_metrics)
                | None \<Rightarrow>
                    let total_time = clock_end call - clock_start call;
                        tokens_per_second =
                          (if total_time > 0 then total_tokens / total_time else 0);
                        first_token_time' =
                          (case first_token_time of None \<Rightarrow> total_time | Some t \<Rightarrow> t)
                    in (response_text,
                        \<lparr> m_time_to_first_token = first_token_time',
                          m_total_tokens = py_int total_tokens,
                          m_tokens_per_second = tokens_per_second,
                          m_total_time = total_time \<rparr>))))"

definition generate_response_with_metrics ::
  "backend \<Rightarrow> string \<Rightarrow> real \<Rightarrow> real option \<Rightarrow> int option \<Rightarrow> string \<Rightarrow> string \<times> metrics" where
  "generate_response_with_metrics b prompt temperature top_p' max_tokens' model' =
     measure_stream (stream b (stream_request False prompt temperature top_p' max_tokens' model'))"

definition generate_structured_response_with_metrics ::
  "backend \<Rightarrow> string \<Rightarrow> schema \<Rightarrow> real \<Rightarrow> real option \<Rightarrow> int option \<Rightarrow> string
     \<Rightarrow> string \<times> metrics" where
  "generate_structured_response_with_metrics b prompt schema_model temperature top_p' max_tokens'
       model' =
     measure_stream (stream b (stream_request True prompt temperature top_p' max_tokens' model'))"

section \<open>The Sample Record and the Sample Worker (generate_sample_response)\<close>

record SampleResponse =
  sr_yaml_config_id :: string
  sr_temperature :: real
  sr_top_p :: "real option"
  sr_prompt :: string
  sr_input_request :: "string option"
  sr_max_tokens :: "int option"
  sr_seed_value :: "int option"
  sr_model :: string
  sr_response_text :: string
  sr_tokens_per_second :: real
  sr_time_to_first_token :: real
  sr_latency :: real
  sr_total_tokens :: int

text \<open>The two collections of the document store.\<close>

record database =
  samples :: "SampleResponse list"
  configs :: "string \<rightharpoonup> YAMLConfig"

text \<open>The schema handed to the client: \<^verbatim>\<open>ResponseStructure\<close> has the one field \<^verbatim>\<open>messages\<close>.\<close>

definition ResponseStructure :: schema where
  "ResponseStructure =
     [(''messages'', \<lparr> fi_annotation = AOther ''List[Message]'', fi_default_factory = None \<rparr>)]"



text \<open>The arguments of the atomic \<^verbatim>\<open>update_one\<close>: one increment for each field.\<close>

record increment =
  inc_total_responses_generated :: int
  inc_tokens_per_second_sum :: real
  inc_time_to_first_token_sum :: real
  inc_queries_per_second_sum :: real
  inc_average_latency_sum :: real
  inc_total_tokens_sum :: int

definition apply_inc :: "increment \<Rightarrow> YAMLConfig \<Rightarrow> YAMLConfig" where
  "apply_inc d c = c
     \<lparr> total_responses_generated := total_responses_generated c + inc_total_responses_generated d,
       tokens_per_second_sum := tokens_per_second_sum c + inc_tokens_per_second_sum d,
       time_to_first_token_sum := time_to_first_token_sum c + inc_time_to_first_token_sum d,
       queries_per_second_sum := queries_per_second_sum c + inc_queries_per_second_sum d,
       average_latency_sum := average_latency_sum c + inc_average_latency_sum d,
       total_tokens_sum := total_tokens_sum c + inc_total_tokens_sum d \<rparr>"


text \<open>
  What the surroundings of one run of the worker do: the construction of the client, the
  save and the update may raise; the two readings of the clock are taken before the
  generation and after the check of the response.
\<close>

record worker_env =
  client_init_error :: "exn option"
  start_time :: real
  end_time :: real
  save_error :: "exn option"
  update_error :: "exn option"

text \<open>The Sample Record built in lines 610 to 624.\<close>

definition make_sample_response ::
  "WorkItem \<Rightarrow> string option \<Rightarrow> string \<Rightarrow> metrics \<Rightarrow> real \<Rightarrow> SampleResponse" where
  "make_sample_response w input_request response_text metrics latency_ms =
     \<lparr> sr_yaml_config_id = wi_yaml_config_id w,
       sr_temperature = wi_temperature w,
       sr_top_p = wi_top_p w,
       sr_prompt = wi_prompt w,
       sr_input_request = input_request,
       sr_max_tokens = wi_max_tokens w,
       sr_seed_value = wi_seed_value w,
       sr_model = wi_model w,
       sr_response_text = response_text,
       sr_tokens_per_second = m_tokens_per_second metrics,
       sr_time_to_first_token = m_time_to_first_token metrics * 1000,
       sr_latency = latency_ms,
       sr_total_tokens = m_total_tokens metrics \<rparr>"



section \<open>The Dataset Materializer (upload_dataset, download_dataset)\<close>

text \<open>
  What one Sample Record contributes to the file (lines 294 to 325 of the processor, and
  the same code in the download route): the text written, or nothing when an exception
  reaches the handler of the loop body.  \<open>json_loads\<close> and \<open>json_dumps\<close> are the two functions of
  Python's \<^verbatim>\<open>json\<close> module; the \<open>Inl\<close> of \<open>json_loads\<close> is a \<^verbatim>\<open>JSONDecodeError\<close>.
\<close>

definition messages_entry :: "string \<Rightarrow> string \<Rightarrow> json" where
  "messages_entry input_request response_text =
     JObj [(''messages'',
        JArr [JObj [(''role'', JStr ''user''), (''content'', JStr input_request)],
              JObj [(''role'', JStr ''assistant''), (''content'', JStr response_text)]])]"

definition parsed_line ::
  "(string \<Rightarrow> exn + json) \<Rightarrow> (json \<Rightarrow> string) \<Rightarrow> string \<Rightarrow> exn + string option" where
  "parsed_line json_loads json_dumps response_text =
     (if startswith (str_strip response_text) ''{'' \<and> endswith (str_strip response_text) ''}''
      then (case json_loads response_text of
              Inl e \<Rightarrow> Inr None
            | Inr parsed \<Rightarrow>
                (case py_in ''messages'' parsed of
                   Inl e \<Rightarrow> Inl e
                 | Inr False \<Rightarrow> Inr None
                 | Inr True \<Rightarrow>
                     (case py_getitem parsed ''messages'' of
                        Inl e \<Rightarrow> Inl e
                      | Inr msgs \<Rightarrow>
                          (case py_len msgs of
                             Inl e \<Rightarrow> Inl e
                           | Inr n \<Rightarrow>
                               if n = 2 then Inr (Some (json_dumps parsed @ ''\<newline>''))
                               else Inr None))))
      else Inr None)"

definition dataset_line ::
  "(string \<Rightarrow> exn + json) \<Rightarrow> (json \<Rightarrow> string) \<Rightarrow> SampleResponse \<Rightarrow> string option" where
  "dataset_line json_loads json_dumps sample =
     (case parsed_line json_loads json_dumps (sr_response_text sample) of
        Inl e \<Rightarrow> None
      | Inr (Some line) \<Rightarrow> Some line
      | Inr None \<Rightarrow>
          (case sr_input_request sample of
             Some input_request \<Rightarrow>
               if input_request \<noteq> [] \<and> sr_response_text sample \<noteq> [] then
                 Some (json_dumps (messages_entry input_request (sr_response_text sample))
                       @ ''\<newline>'')
               else
                 Some (str_replace (str_replace (sr_response_text sample) ''\<newline>'' '' '')
                         [CHR 0x0D] '' '' @ ''\<newline>'')
           | None \<Rightarrow>
               Some (str_replace (str_replace (sr_response_text sample) ''\<newline>'' '' '')
                       [CHR 0x0D] '' '' @ ''\<newline>'')))"

text \<open>The file written for a configuration: the lines of its records, in the order read.\<close>

definition write_dataset ::
  "(string \<Rightarrow> exn + json) \<Rightarrow> (json \<Rightarrow> string) \<Rightarrow> database \<Rightarrow> string \<Rightarrow> string" where
  "write_dataset json_loads json_dumps db yaml_config_id =
     concat (map (\<lambda>sample. case dataset_line json_loads json_dumps sample of
                              None \<Rightarrow> [] | Some line \<Rightarrow> line)
                 (filter (\<lambda>sample. sr_yaml_config_id sample = yaml_config_id) (samples db)))"

section \<open>The remote publish (upload_dataset, LLMClient.create_dataset, LLMClient.upload_dataset)\<close>

text \<open>
  The answer of the remote store to one HTTP request: a parsed body, a
  \<^verbatim>\<open>RequestException\<close> (which the two client methods turn into an error envelope), or another
  exception (which they let through).
\<close>

datatype http_result = HttpOk json | RequestException string | OtherException exn

definition create_dataset :: "http_result \<Rightarrow> exn + json" where
  "create_dataset r =
     (case r of
        HttpOk body \<Rightarrow> Inr body
      | RequestException m \<Rightarrow> Inr (JObj [(''error'', JStr m)])
      | OtherException e \<Rightarrow> Inl e)"

definition client_upload_dataset :: "bool \<Rightarrow> string \<Rightarrow> http_result \<Rightarrow> exn + json" where
  "client_upload_dataset file_exists file_path r =
     (if \<not> file_exists then Inl (Exn (''File not found: '' @ file_path))
      else (case r of
              HttpOk body \<Rightarrow> Inr body
            | RequestException m \<Rightarrow> Inr (JObj [(''error'', JStr m)])
            | OtherException e \<Rightarrow> Inl e))"

record publish_env =
  FIREWORKS_API_KEY :: "string option"
  FIREWORKS_ACCOUNT_ID :: "string option"
  uuid4 :: string
  abs_dataset_path :: string
  dataset_file_exists :: bool
  publish_client_error :: "exn option"
  create_answer :: http_result
  upload_answer :: http_result

text \<open>Truth value of an optional string: \<^verbatim>\<open>None\<close> and the empty string are false.\<close>

definition truthy :: "string option \<Rightarrow> bool" where
  "truthy s = (case s of None \<Rightarrow> False | Some v \<Rightarrow> v \<noteq> [])"

text \<open>
  The second half of the task (lines 337 to 409): the value returned and the configuration
  as last saved.
\<close>

definition publish_dataset :: "publish_env \<Rightarrow> YAMLConfig \<Rightarrow> json \<times> YAMLConfig" where
  "publish_dataset env yaml_config =
     (if \<not> truthy (FIREWORKS_API_KEY env) \<or> \<not> truthy (FIREWORKS_ACCOUNT_ID env) then
        (JObj [(''status'', JStr ''file_created_only''),
               (''error'', JStr ''API credentials not configured''),
               (''file_path'', JStr (abs_dataset_path env))],
         yaml_config \<lparr> dataset_uploaded := False,
                       dataset_upload_response :=
                         JObj [(''error'', JStr ''API credentials not configured'')] \<rparr>)
      else
        let c1 = (case dataset_id yaml_config of
                    None \<Rightarrow> yaml_config \<lparr> dataset_id := Some (uuid4 env) \<rparr>
                  | Some d \<Rightarrow> if d = [] then yaml_config \<lparr> dataset_id := Some (uuid4 env) \<rparr>
                              else yaml_config);
            full_dataset_id = ''generatedsyntheticdataset''
              @ (case dataset_id c1 of None \<Rightarrow> uuid4 env | Some d \<Rightarrow> d)
        in case publish_client_error env of
             Some e \<Rightarrow> (JObj [(''error'', JStr (exn_str e))], c1)
           | None \<Rightarrow>
          (case create_dataset (create_answer env) of
             Inl e \<Rightarrow> (JObj [(''error'', JStr (exn_str e))], c1)
           | Inr create_response \<Rightarrow>
               (case py_in ''error'' create_response of
                  Inl e \<Rightarrow> (JObj [(''error'', JStr (exn_str e))], c1)
                | Inr True \<Rightarrow>
                    (create_response, c1 \<lparr> dataset_upload_response := create_response \<rparr>)
                | Inr False \<Rightarrow>
                    (case client_upload_dataset (dataset_file_exists env)
                            (abs_dataset_path env) (upload_answer env) of
                       Inl e \<Rightarrow> (JObj [(''error'', JStr (exn_str e))], c1)
                     | Inr upload_response \<Rightarrow>
                         let response = JObj [(''creation'', create_response),
                                              (''upload'', upload_response),
                                              (''file_path'', JStr (abs_dataset_path env)),
                                              (''dataset_id'', JStr full_dataset_id)]
                         in (response, c1 \<lparr> dataset_uploaded := True,
                                            dataset_upload_response := response \<rparr>)))))"

section \<open>The statements of the specification, and a scenario\<close>

text \<open>
  The contribution of one sample as the specification words it: one response, the tokens per
  second, the time to first token in milliseconds, \<open>1000 / latency_ms\<close> queries per second
  (0 if the latency is 0), the latency in milliseconds and the total tokens.
\<close>

definition spec_contribution :: "metrics \<Rightarrow> real \<Rightarrow> increment" where
  "spec_contribution metrics latency_ms =
     \<lparr> inc_total_responses_generated = 1,
       inc_tokens_per_second_sum = m_tokens_per_second metrics,
       inc_time_to_first_token_sum = 1000 * m_time_to_first_token metrics,
       inc_queries_per_second_sum = (if latency_ms = 0 then 0 else 1000 / latency_ms),
       inc_average_latency_sum = latency_ms,
       inc_total_tokens_sum = m_total_tokens metrics \<rparr>"

text \<open>
  A streamed call fails when the request raises, when the iterator raises, or when a chunk
  has no choice to read (\<^verbatim>\<open>choices[0]\<close> raises).
\<close>

definition stream_fails :: "stream_call \<Rightarrow> bool" where
  "stream_fails call =
     (create_error call \<noteq> None \<or> stream_error call \<noteq> None
      \<or> list_ex (\<lambda>ch. snd ch = []) (chunks call))"





text \<open>
  The default of a field as the specification words it: the empty string for a text field,
  0 for a numeric one, false for a boolean one, the empty list or map for a collection,
  null otherwise, and the error description for the field \<open>explanation\<close>.
\<close>

definition spec_default_value :: "exn \<Rightarrow> string \<Rightarrow> FieldInfo \<Rightarrow> json" where
  "spec_default_value e field_name field =
     (if field_name = ''explanation'' then JStr (''Error generating explanation: '' @ exn_str e)
      else (case fi_annotation field of
              AStr \<Rightarrow> JStr [] | AInt \<Rightarrow> JInt 0 | AFloat \<Rightarrow> JInt 0 | ABool \<Rightarrow> JBool False
            | AList \<Rightarrow> JArr [] | ADict \<Rightarrow> JObj [] | AOther _ \<Rightarrow> JNull))"

text \<open>
  The scenario of the specification: three samples, the temperature range \<open>[0.1, 0.3]\<close>, two
  example inputs (the first one in double quotes).
\<close>

definition scenario_config :: YAMLConfig where
  "scenario_config =
     \<lparr> name = ''demo'', number_of_samples = 3, model = ''m'',
       user_prompt = ''Topic: {input_request}'',
       sampling_parameters =
         Some \<lparr> sp_temperature_range = [1 / 10, 3 / 10], sp_top_p = 9 / 10 \<rparr>,
       dataset_parameters =
         Some \<lparr> dp_output_format = ''jsonl'', dp_task_description = ''t'',
                dp_max_tokens = 750, dp_seed_value = 42, dp_validation_rules = [] \<rparr>,
       example_inputs = [[CHR 0x22] @ ''cats'' @ [CHR 0x22], ''dogs''],
       dataset_id = None, dataset_uploaded = False, dataset_upload_response = JObj [],
       total_responses_generated = 0, tokens_per_second_sum = 0,
       time_to_first_token_sum = 0, queries_per_second_sum = 0,
       average_latency_sum = 0, total_tokens_sum = 0 \<rparr>"

definition scenario_store :: "string \<rightharpoonup> YAMLConfig" where
  "scenario_store = (\<lambda>k. if k = ''c1'' then Some scenario_config else None)"



definition scenario_work_item :: WorkItem where
  "scenario_work_item =
     \<lparr> wi_yaml_config_id = ''c1'', wi_temperature = 1 / 10, wi_top_p = Some (9 / 10),
       wi_prompt = ''Topic: cats'', wi_max_tokens = Some 750, wi_seed_value = Some 42,
       wi_model = ''m'', wi_output_format = Some ''jsonl'' \<rparr>"


definition scenario_json_loads :: "string \<Rightarrow> exn + json" where
  "scenario_json_loads s = Inl (Exn ''Expecting value'')"

text \<open>A client, a backend whose every request raises, and a backend with an empty first chunk.\<close>

definition scenario_client :: LLMClient where
  "scenario_client = \<lparr> lc_api_key = Some ''key'', lc_model = ''m'', lc_max_tokens = 4096,
                         lc_temperature = 6 / 10 \<rparr>"

definition failing_backend :: backend where
  "failing_backend =
     \<lparr> complete = (\<lambda>rq. Inl (Exn ''boom'')),
       stream = (\<lambda>rq. \<lparr> create_error = Some (Exn ''boom''), clock_start = 10, chunks = [],
                          stream_error = None, clock_end = 10 \<rparr>) \<rparr>"


text \<open>A schema with a nested model that has a default factory.\<close>

definition settings_schema :: schema where
  "settings_schema =
     [(''title'', \<lparr> fi_annotation = AStr, fi_default_factory = None \<rparr>),
      (''settings'', \<lparr> fi_annotation = AOther ''Settings'',
                        fi_default_factory = Some (JObj [(''depth'', JInt 1)]) \<rparr>)]"

text \<open>
  Two responses that are JSON objects whose \<open>messages\<close> value is not a list, with what
  \<^verbatim>\<open>json.loads\<close> returns on them, and the records that hold them.
\<close>

definition text_messages_str :: string where
  "text_messages_str = ''{'' @ [CHR 0x22] @ ''messages'' @ [CHR 0x22] @ '': ''
                         @ [CHR 0x22] @ ''ab'' @ [CHR 0x22] @ ''}''"

definition text_messages_int :: string where
  "text_messages_int = ''{'' @ [CHR 0x22] @ ''messages'' @ [CHR 0x22] @ '': 5}''"

definition example_json_loads :: "string \<Rightarrow> exn + json" where
  "example_json_loads s =
     (if s = text_messages_str then Inr (JObj [(''messages'', JStr ''ab'')])
      else if s = text_messages_int then Inr (JObj [(''messages'', JInt 5)])
      else Inl (Exn ''Expecting value''))"

definition sample_with :: "string option \<Rightarrow> string \<Rightarrow> SampleResponse" where
  "sample_with input_request response_text =
     make_sample_response scenario_work_item input_request response_text zero_metrics 0"

text \<open>A publish in which the create call succeeds and the upload call fails.\<close>

definition upload_fails_env :: publish_env where
  "upload_fails_env =
     \<lparr> FIREWORKS_API_KEY = Some ''key'', FIREWORKS_ACCOUNT_ID = Some ''acct'',
       uuid4 = ''u1'', abs_dataset_path = ''/app/datasets/c1.jsonl'',
       dataset_file_exists = True, publish_client_error = None,
       create_answer = HttpOk (JObj [(''name'', JStr ''ds'')]),
       upload_answer = RequestException ''500 Server Error'' \<rparr>"

section \<open>Facts about the string operations\<close>

lemma str_contains_sublist: "str_contains sub s = sublist sub s"
  by (induction s) (simp_all add: sublist_Cons_right)

lemma str_contains_append_left: "str_contains sub s \<Longrightarrow> str_contains sub (s @ t)"
  unfolding str_contains_sublist sublist_def by (metis append.assoc)

lemma str_contains_append_right: "str_contains sub t \<Longrightarrow> str_contains sub (s @ t)"
  unfolding str_contains_sublist sublist_def by (metis append.assoc)

lemma trailer_has_placeholder: "str_contains input_placeholder placeholder_trailer"
  by (simp add: input_placeholder_def placeholder_trailer_def)

lemma instructions_have_marker: "str_contains instruction_marker json_instructions"
  by (simp add: instruction_marker_def json_instructions_def)

lemma repaired_has_placeholder:
  "str_contains input_placeholder (repair_prompt_template t)"
  by (simp add: repair_prompt_template_def Let_def str_contains_append_left
      str_contains_append_right trailer_has_placeholder)

lemma repaired_has_marker:
  "str_contains instruction_marker (repair_prompt_template t)"
  by (simp add: repair_prompt_template_def Let_def str_contains_append_right
      instructions_have_marker)

section \<open>Prompt repair\<close>

text \<open>
  Claim C9.  The repair step of the Job Expander is idempotent: repairing a template that has
  already been repaired gives exactly the template that one repair gives.
\<close>

theorem repair_prompt_template_idempotent:
  "repair_prompt_template (repair_prompt_template t) = repair_prompt_template t"
proof -
  let ?r = "repair_prompt_template t"
  have p: "str_contains input_placeholder ?r" by (rule repaired_has_placeholder)
  have m: "str_contains instruction_marker ?r" by (rule repaired_has_marker)
  have "repair_prompt_template ?r = ?r"
    unfolding repair_prompt_template_def [of ?r] Let_def using p m by simp
  then show ?thesis .
qed

section \<open>The temperature schedule of the Job Expander\<close>










section \<open>The example substituted into the prompt\<close>







section \<open>The derived averages\<close>

text \<open>
  Claim C3.  For every state of a configuration and each of the five metrics, the average is
  the stored sum divided by \<open>total_responses_generated\<close> when that count is positive, and \<open>0\<close>
  when it is \<open>0\<close>.  The averages are functions of the record: it has no field for them.
\<close>

theorem averages_are_sum_over_count:
  "(0 < total_responses_generated c \<longrightarrow>
       tokens_per_second c = tokens_per_second_sum c / real_of_int (total_responses_generated c)
     \<and> time_to_first_token c
         = time_to_first_token_sum c / real_of_int (total_responses_generated c)
     \<and> queries_per_second c
         = queries_per_second_sum c / real_of_int (total_responses_generated c)
     \<and> average_latency c = average_latency_sum c / real_of_int (total_responses_generated c)
     \<and> average_tokens c
         = real_of_int (total_tokens_sum c) / real_of_int (total_responses_generated c))
   \<and> (total_responses_generated c = 0 \<longrightarrow>
       tokens_per_second c = 0 \<and> time_to_first_token c = 0 \<and> queries_per_second c = 0
     \<and> average_latency c = 0 \<and> average_tokens c = 0)"
  by (simp add: tokens_per_second_def time_to_first_token_def queries_per_second_def
      average_latency_def average_tokens_def)

text \<open>Two increments on the fresh configuration of the scenario.\<close>

lemma apply_inc_count:
  "total_responses_generated (apply_inc d c)
     = total_responses_generated c + inc_total_responses_generated d"
  by (simp add: apply_inc_def)

lemma apply_inc_latency:
  "average_latency_sum (apply_inc d c) = average_latency_sum c + inc_average_latency_sum d"
  by (simp add: apply_inc_def)

lemma scenario_count: "total_responses_generated scenario_config = 0"
  by (simp add: scenario_config_def)

lemma scenario_latency: "average_latency_sum scenario_config = 0"
  by (simp add: scenario_config_def)

theorem averages_are_sum_over_count_witness:
  "average_latency (apply_inc (spec_contribution zero_metrics 300)
       (apply_inc (spec_contribution zero_metrics 100) scenario_config)) = 200
   \<and> average_latency scenario_config = 0"
proof -
  let ?c = "apply_inc (spec_contribution zero_metrics 300)
       (apply_inc (spec_contribution zero_metrics 100) scenario_config)"
  have n: "total_responses_generated ?c = 2"
    by (simp add: apply_inc_count spec_contribution_def scenario_count)
  have s: "average_latency_sum ?c = 400"
    by (simp add: apply_inc_latency spec_contribution_def scenario_latency)
  have pos: "0 < total_responses_generated ?c"
    by (simp only: n)
  from averages_are_sum_over_count [of ?c] pos
  have "average_latency ?c = average_latency_sum ?c / real_of_int (total_responses_generated ?c)"
    by blast
  then have "average_latency ?c = 400 / real_of_int 2"
    by (simp only: n s)
  then have a: "average_latency ?c = 200"
    by simp
  from averages_are_sum_over_count [of scenario_config] scenario_count
  have "average_latency scenario_config = 0"
    by blast
  with a show ?thesis by blast
qed

section \<open>The Sample Worker\<close>












section \<open>The Generation Client on a backend error\<close>

lemma consume_stream_Inl:
  "list_ex (\<lambda>ch. snd ch = []) cs \<Longrightarrow> \<exists>e. consume_stream st cs f t r = Inl e"
proof (induction cs arbitrary: f t r)
  case Nil
  then show ?case by simp
next
  case (Cons c cs)
  obtain now choices where c: "c = (now, choices)" by (cases c)
  show ?case
  proof (cases choices)
    case Nil
    then show ?thesis by (simp add: c)
  next
    case (Cons content rest)
    with Cons.prems c have "list_ex (\<lambda>ch. snd ch = []) cs" by simp
    from Cons.IH [OF this] show ?thesis
      by (simp add: c Cons Let_def split: option.splits)
  qed
qed

lemma measure_stream_failure:
  assumes "stream_fails call"
  shows "measure_stream call = ('''', zero_metrics)"
proof (cases "create_error call")
  case (Some e)
  then show ?thesis by (simp add: measure_stream_def)
next
  case None
  show ?thesis
  proof (cases "list_ex (\<lambda>ch. snd ch = []) (chunks call)")
    case True
    from consume_stream_Inl [OF True]
    obtain e where "consume_stream (clock_start call) (chunks call) None 0 [] = Inl e"
      by blast
    then show ?thesis by (simp add: measure_stream_def None)
  next
    case False
    with assms None have "stream_error call \<noteq> None"
      by (simp add: stream_fails_def)
    then show ?thesis
      by (auto simp: measure_stream_def None split: sum.splits prod.splits)
  qed
qed

text \<open>
  Claim C4, as amended.  For every prompt and every error raised by the backend: the two
  streaming operations catch it and return the empty text with the metrics dictionary whose
  four entries are \<open>0\<close>; \<^verbatim>\<open>generate_text\<close> catches it and returns the text
  \<open>Error generating response:\<close> followed by the message of the error; \<^verbatim>\<open>generate_structured_json\<close>
  catches it and returns the dictionary of the defaults of the schema.  All four operations
  return a value: no such error passes the boundary of the client.
\<close>

theorem backend_error_is_caught:
  "(stream_fails (stream b (stream_request False prompt temperature p n mdl)) \<longrightarrow>
      generate_response_with_metrics b prompt temperature p n mdl = ('''', zero_metrics))
   \<and> (stream_fails (stream b (stream_request True prompt temperature p n mdl)) \<longrightarrow>
      generate_structured_response_with_metrics b prompt sch temperature p n mdl
        = ('''', zero_metrics))
   \<and> (\<forall>e. complete b (text_request self prompt) = Inl e \<longrightarrow>
      generate_text self b prompt = Some (''Error generating response: '' @ exn_str e))
   \<and> (\<forall>e. complete b (structured_request self prompt) = Inl e \<longrightarrow>
      generate_structured_json self b json_loads sch prompt = JObj (default_values e sch))"
  by (simp add: generate_response_with_metrics_def generate_structured_response_with_metrics_def
      measure_stream_failure generate_text_def generate_structured_json_def
      structured_json_try_def)

text \<open>
  The claim as it is worded fails for \<^verbatim>\<open>generate_text\<close>: on a backend error its text is not
  empty.
\<close>

theorem generate_text_error_counterexample:
  "complete failing_backend (text_request scenario_client ''p'') = Inl (Exn ''boom'')
   \<and> generate_text scenario_client failing_backend ''p''
       = Some ''Error generating response: boom''
   \<and> generate_text scenario_client failing_backend ''p'' \<noteq> Some ''''"
  by (simp add: generate_text_def failing_backend_def)

text \<open>The four operations on the backend whose every request raises.\<close>

theorem backend_error_is_caught_witness:
  "generate_response_with_metrics failing_backend ''p'' (7 / 10) (Some 1) (Some 1000) ''m''
     = ('''', zero_metrics)
   \<and> generate_structured_response_with_metrics failing_backend ''p'' ResponseStructure (7 / 10)
       (Some 1) (Some 1000) ''m'' = ('''', zero_metrics)
   \<and> generate_text scenario_client failing_backend ''p''
       = Some (''Error generating response: '' @ ''boom'')
   \<and> generate_structured_json scenario_client failing_backend scenario_json_loads
       ResponseStructure ''p'' = JObj [(''messages'', JNull)]"
proof -
  have f: "stream_fails (stream failing_backend rq)" for rq
    by (simp add: stream_fails_def failing_backend_def)
  have c: "complete failing_backend rq = Inl (Exn ''boom'')" for rq
    by (simp add: failing_backend_def)
  have d: "default_values (Exn ''boom'') ResponseStructure = [(''messages'', JNull)]"
    by (simp add: default_values_def default_value_def ResponseStructure_def)
  note t = backend_error_is_caught
    [of failing_backend "''p''" "7 / 10" "Some 1" "Some 1000" "''m''" ResponseStructure
        scenario_client scenario_json_loads]
  from t f c have "generate_response_with_metrics failing_backend ''p'' (7 / 10) (Some 1)
      (Some 1000) ''m'' = ('''', zero_metrics)"
    by blast
  moreover from t f c have "generate_structured_response_with_metrics failing_backend ''p''
      ResponseStructure (7 / 10) (Some 1) (Some 1000) ''m'' = ('''', zero_metrics)"
    by blast
  moreover from t c have "generate_text scenario_client failing_backend ''p''
       = Some (''Error generating response: '' @ exn_str (Exn ''boom''))"
    by blast
  moreover from t c have "generate_structured_json scenario_client failing_backend
      scenario_json_loads ResponseStructure ''p''
       = JObj (default_values (Exn ''boom'') ResponseStructure)"
    by blast
  ultimately show ?thesis
    by (simp add: d)
qed

section \<open>The metrics of a streamed call\<close>










section \<open>The defaults of the structured operation\<close>

lemma dict_set_fresh: "k \<notin> fst ` set kvs \<Longrightarrow> dict_set k v kvs = kvs @ [(k, v)]"
  by (induction kvs) auto

lemma fold_dict_set_distinct:
  "distinct (map fst acc @ map fst fs) \<Longrightarrow>
   fold (\<lambda>(n, f) d. dict_set n (g n f) d) fs acc = acc @ map (\<lambda>(n, f). (n, g n f)) fs"
proof (induction fs arbitrary: acc)
  case Nil
  then show ?case by simp
next
  case (Cons x fs)
  obtain n f where x: "x = (n, f)" by (cases x)
  from Cons.prems x have fresh: "n \<notin> fst ` set acc" by auto
  from Cons.prems x have d: "distinct (map fst (acc @ [(n, g n f)]) @ map fst fs)" by auto
  show ?case
    using Cons.IH [OF d] by (simp add: x dict_set_fresh [OF fresh])
qed

lemma default_values_distinct:
  "distinct (map fst model_fields) \<Longrightarrow>
   default_values e model_fields
     = map (\<lambda>(n, f). (n, default_value e n f)) model_fields"
  unfolding default_values_def
  using fold_dict_set_distinct [of "[]" model_fields "default_value e"] by simp

text \<open>
  Claim C5, as amended.  On a backend error \<^verbatim>\<open>generate_structured_json\<close> returns one default for
  each declared field of the schema: the error description for a field named
  \<open>explanation\<close>; otherwise the empty string for the annotation \<^verbatim>\<open>str\<close>, \<open>0\<close> for \<^verbatim>\<open>int\<close> and
  \<^verbatim>\<open>float\<close>, false for \<^verbatim>\<open>bool\<close>, the empty list for \<^verbatim>\<open>list\<close>, the empty map for \<^verbatim>\<open>dict\<close>; and for
  any other annotation the value of the field's default factory when it has one, null when
  it has none.  The streaming structured operation returns the empty text and zero
  metrics instead.  (The names of the fields of a schema are distinct.)
\<close>

theorem structured_defaults:
  assumes "distinct (map fst model_fields)"
    and "complete b (structured_request self prompt) = Inl e"
  shows "generate_structured_json self b json_loads model_fields prompt
           = JObj (default_values e model_fields)
       \<and> map fst (default_values e model_fields) = map fst model_fields
       \<and> (\<forall>(field_name, field) \<in> set model_fields.
            map_of (default_values e model_fields) field_name
              = Some (if field_name = ''explanation''
                        then JStr (''Error generating explanation: '' @ exn_str e)
                      else (case fi_annotation field of
                              AStr \<Rightarrow> JStr []
                            | AInt \<Rightarrow> JInt 0
                            | AFloat \<Rightarrow> JInt 0
                            | ABool \<Rightarrow> JBool False
                            | AList \<Rightarrow> JArr []
                            | ADict \<Rightarrow> JObj []
                            | AOther _ \<Rightarrow>
                                (case fi_default_factory field of
                                   Some v \<Rightarrow> v | None \<Rightarrow> JNull))))
       \<and> (stream_fails (stream b (stream_request True prompt temperature p n mdl)) \<longrightarrow>
            generate_structured_response_with_metrics b prompt model_fields temperature p n mdl
              = ('''', zero_metrics))"
proof -
  note dv = default_values_distinct [OF assms(1), of e]
  have a: "generate_structured_json self b json_loads model_fields prompt
           = JObj (default_values e model_fields)"
    by (simp add: generate_structured_json_def structured_json_try_def assms(2))
  have b: "map fst (default_values e model_fields) = map fst model_fields"
    by (simp add: dv comp_def case_prod_beta)
  have c: "map_of (default_values e model_fields) field_name
              = Some (default_value e field_name field)"
    if "(field_name, field) \<in> set model_fields" for field_name field
  proof -
    have "distinct (map fst (map (\<lambda>(n, f). (n, default_value e n f)) model_fields))"
      using assms(1) by (simp add: comp_def case_prod_beta)
    moreover have "(field_name, default_value e field_name field)
        \<in> set (map (\<lambda>(n, f). (n, default_value e n f)) model_fields)"
      using that by force
    ultimately show ?thesis
      unfolding dv by (rule map_of_is_SomeI)
  qed
  have d: "default_value e field_name field
      = (if field_name = ''explanation''
                        then JStr (''Error generating explanation: '' @ exn_str e)
                      else (case fi_annotation field of
                              AStr \<Rightarrow> JStr []
                            | AInt \<Rightarrow> JInt 0
                            | AFloat \<Rightarrow> JInt 0
                            | ABool \<Rightarrow> JBool False
                            | AList \<Rightarrow> JArr []
                            | ADict \<Rightarrow> JObj []
                            | AOther _ \<Rightarrow>
                                (case fi_default_factory field of
                                   Some v \<Rightarrow> v | None \<Rightarrow> JNull)))" for field_name field
    by (simp add: default_value_def split: annotation.splits)
  have s: "generate_structured_response_with_metrics b prompt model_fields temperature p n mdl
              = ('''', zero_metrics)"
    if "stream_fails (stream b (stream_request True prompt temperature p n mdl))"
    using that by (simp add: generate_structured_response_with_metrics_def measure_stream_failure)
  from a b c d s show ?thesis
    by (auto simp: d)
qed


text \<open>A schema with a text field and a nested model that has a default factory.\<close>

lemma settings_distinct: "distinct (map fst settings_schema)"
  by (simp add: settings_schema_def)

lemma failing_complete: "complete failing_backend rq = Inl (Exn ''boom'')"
  by (simp add: failing_backend_def)

lemma failing_stream: "stream_fails (stream failing_backend rq)"
  by (simp add: failing_backend_def stream_fails_def)

theorem structured_defaults_witness:
  "generate_structured_json scenario_client failing_backend scenario_json_loads settings_schema
       ''p'' = JObj (default_values (Exn ''boom'') settings_schema)
   \<and> map fst (default_values (Exn ''boom'') settings_schema) = [''title'', ''settings'']
   \<and> map_of (default_values (Exn ''boom'') settings_schema) ''title'' = Some (JStr [])
   \<and> map_of (default_values (Exn ''boom'') settings_schema) ''settings''
       = Some (JObj [(''depth'', JInt 1)])
   \<and> generate_structured_response_with_metrics failing_backend ''p'' settings_schema (7 / 10)
       None None ''m'' = ([], zero_metrics)"
proof -
  note t = structured_defaults [OF settings_distinct failing_complete,
             where self = scenario_client and prompt = "''p''" and json_loads = scenario_json_loads
               and temperature = "7 / 10" and p = None and n = None and mdl = "''m''"]
  have title: "(''title'', \<lparr> fi_annotation = AStr, fi_default_factory = None \<rparr>)
      \<in> set settings_schema"
    by (simp add: settings_schema_def)
  have settings: "(''settings'', \<lparr> fi_annotation = AOther ''Settings'',
        fi_default_factory = Some (JObj [(''depth'', JInt 1)]) \<rparr>) \<in> set settings_schema"
    by (simp add: settings_schema_def)
  from t have all: "\<forall>(field_name, field) \<in> set settings_schema.
            map_of (default_values (Exn ''boom'') settings_schema) field_name
              = Some (if field_name = ''explanation''
                        then JStr (''Error generating explanation: '' @ exn_str (Exn ''boom''))
                      else (case fi_annotation field of
                              AStr \<Rightarrow> JStr []
                            | AInt \<Rightarrow> JInt 0
                            | AFloat \<Rightarrow> JInt 0
                            | ABool \<Rightarrow> JBool False
                            | AList \<Rightarrow> JArr []
                            | ADict \<Rightarrow> JObj []
                            | AOther _ \<Rightarrow>
                                (case fi_default_factory field of
                                   Some v \<Rightarrow> v | None \<Rightarrow> JNull)))"
    by blast
  from bspec [OF all title]
  have a: "map_of (default_values (Exn ''boom'') settings_schema) ''title'' = Some (JStr [])"
    by simp
  from bspec [OF all settings]
  have b: "map_of (default_values (Exn ''boom'') settings_schema) ''settings''
       = Some (JObj [(''depth'', JInt 1)])"
    by simp
  from t have c: "map fst (default_values (Exn ''boom'') settings_schema)
      = [''title'', ''settings'']"
    by (simp add: settings_schema_def)
  from t failing_stream a b c show ?thesis
    by blast
qed

text \<open>
  On that schema the claim as it is worded fails: the nested field gets the value of its
  factory where the wording gives null, and the streaming structured operation returns an
  empty text, not defaults.
\<close>

theorem structured_defaults_counterexample:
  "generate_structured_json scenario_client failing_backend scenario_json_loads settings_schema
       ''p'' = JObj [(''title'', JStr []), (''settings'', JObj [(''depth'', JInt 1)])]
   \<and> spec_default_value (Exn ''boom'') ''settings''
         \<lparr> fi_annotation = AOther ''Settings'',
           fi_default_factory = Some (JObj [(''depth'', JInt 1)]) \<rparr> = JNull
   \<and> fst (generate_structured_response_with_metrics failing_backend ''p'' settings_schema
         (7 / 10) None None ''m'') = []"
  by (simp add: generate_structured_json_def structured_json_try_def failing_backend_def
      default_values_def default_value_def settings_schema_def spec_default_value_def
      generate_structured_response_with_metrics_def measure_stream_def)

section \<open>The Dataset Materializer\<close>

lemma text_messages_str_braces:
  "startswith (str_strip text_messages_str) ''{'' \<and> endswith (str_strip text_messages_str) ''}''"
  by (simp add: text_messages_str_def str_strip_def is_space_def startswith_def endswith_def)

lemma text_messages_int_braces:
  "startswith (str_strip text_messages_int) ''{'' \<and> endswith (str_strip text_messages_int) ''}''"
  by (simp add: text_messages_int_def str_strip_def is_space_def startswith_def endswith_def)

lemma texts_differ: "text_messages_int \<noteq> text_messages_str"
  by (simp add: text_messages_int_def text_messages_str_def)

text \<open>
  The branch for a response that parses as an object with a list of two messages: the parsed
  object is written.
\<close>

lemma dataset_line_two_messages:
  assumes "startswith (str_strip (sr_response_text sample)) ''{''"
    and "endswith (str_strip (sr_response_text sample)) ''}''"
    and "json_loads (sr_response_text sample) = Inr (JObj kvs)"
    and "map_of kvs ''messages'' = Some (JArr [a, b])"
  shows "dataset_line json_loads json_dumps sample = Some (json_dumps (JObj kvs) @ ''\<newline>'')"
proof -
  from assms(4) have "(''messages'', JArr [a, b]) \<in> set kvs"
    by (rule map_of_SomeD)
  then have "''messages'' \<in> fst ` set kvs"
    by force
  then have "py_in ''messages'' (JObj kvs) = Inr True"
    by simp
  then show ?thesis
    using assms by (simp add: dataset_line_def parsed_line_def)
qed

text \<open>
  Claim C7, where the code departs from it.  The test of the first branch is
  \<^verbatim>\<open>len(parsed['messages']) == 2\<close> with no check that the value is a list.  A record with an
  input request whose response is the object with \<open>messages\<close> equal to the string \<open>ab\<close> is
  written as that parsed object, not as the synthesized pair of messages; a record whose
  \<open>messages\<close> is the number \<open>5\<close> raises in \<^verbatim>\<open>len\<close> and contributes nothing.  The record after
  a failing one is still written.
\<close>

theorem dataset_line_messages_not_a_list:
  "dataset_line example_json_loads json_dumps (sample_with (Some ''hi'') text_messages_str)
     = Some (json_dumps (JObj [(''messages'', JStr ''ab'')]) @ ''\<newline>'')
   \<and> dataset_line example_json_loads json_dumps (sample_with (Some ''hi'') text_messages_int)
     = None
   \<and> write_dataset example_json_loads json_dumps
       \<lparr> samples = [sample_with (Some ''hi'') text_messages_int,
                     sample_with (Some ''hi'') text_messages_str],
         configs = scenario_store \<rparr> ''c1''
     = json_dumps (JObj [(''messages'', JStr ''ab'')]) @ ''\<newline>''"
proof -
  have a: "parsed_line example_json_loads json_dumps text_messages_str
      = Inr (Some (json_dumps (JObj [(''messages'', JStr ''ab'')]) @ ''\<newline>''))"
    by (simp add: parsed_line_def text_messages_str_braces example_json_loads_def)
  have b: "parsed_line example_json_loads json_dumps text_messages_int
      = Inl (Exn ''object has no len()'')"
    by (simp add: parsed_line_def text_messages_int_braces example_json_loads_def texts_differ)
  have l1: "dataset_line example_json_loads json_dumps
        (sample_with (Some ''hi'') text_messages_str)
     = Some (json_dumps (JObj [(''messages'', JStr ''ab'')]) @ ''\<newline>'')"
    by (simp add: dataset_line_def sample_with_def make_sample_response_def a)
  have l2: "dataset_line example_json_loads json_dumps
        (sample_with (Some ''hi'') text_messages_int) = None"
    by (simp add: dataset_line_def sample_with_def make_sample_response_def b)
  have id: "sr_yaml_config_id (sample_with r t) = ''c1''" for r t
    by (simp add: sample_with_def make_sample_response_def scenario_work_item_def)
  show ?thesis
    by (simp add: l1 l2 write_dataset_def id)
qed

text \<open>The same two records with a fixed printer in place of \<^verbatim>\<open>json.dumps\<close>.\<close>

theorem dataset_line_messages_not_a_list_witness:
  "dataset_line example_json_loads (\<lambda>j. ''J'') (sample_with (Some ''hi'') text_messages_str)
     = Some (''J'' @ ''\<newline>'')
   \<and> dataset_line example_json_loads (\<lambda>j. ''J'') (sample_with (Some ''hi'') text_messages_int)
     = None"
  using dataset_line_messages_not_a_list [of "\<lambda>j. ''J''"] by blast

section \<open>The remote publish\<close>

text \<open>
  The two outcomes of the publish that the code handles: without credentials the publish is
  skipped and recorded as such; a failing create call is recorded and the upload flag is
  left as it was.
\<close>

lemma publish_without_credentials:
  assumes "\<not> truthy (FIREWORKS_API_KEY env) \<or> \<not> truthy (FIREWORKS_ACCOUNT_ID env)"
  shows "publish_dataset env c =
     (JObj [(''status'', JStr ''file_created_only''),
            (''error'', JStr ''API credentials not configured''),
            (''file_path'', JStr (abs_dataset_path env))],
      c \<lparr> dataset_uploaded := False,
          dataset_upload_response := JObj [(''error'', JStr ''API credentials not configured'')] \<rparr>)"
  using assms by (auto simp: publish_dataset_def)

lemma publish_create_failure:
  assumes "truthy (FIREWORKS_API_KEY env)" and "truthy (FIREWORKS_ACCOUNT_ID env)"
    and "publish_client_error env = None"
    and "create_answer env = RequestException m"
  shows "fst (publish_dataset env c) = JObj [(''error'', JStr m)]
       \<and> dataset_upload_response (snd (publish_dataset env c)) = JObj [(''error'', JStr m)]
       \<and> dataset_uploaded (snd (publish_dataset env c)) = dataset_uploaded c"
  using assms
  by (auto simp: publish_dataset_def create_dataset_def Let_def split: option.splits)

text \<open>
  Claim C8, where the code departs from it.  The response of the upload call is not tested
  for an error: when the create call succeeds and the upload call fails, the client returns
  an error envelope and the task still sets the uploaded flag and stores the combined
  payload.
\<close>

theorem publish_dataset_upload_failure:
  "client_upload_dataset (dataset_file_exists upload_fails_env)
       (abs_dataset_path upload_fails_env) (upload_answer upload_fails_env)
     = Inr (JObj [(''error'', JStr ''500 Server Error'')])
   \<and> dataset_uploaded (snd (publish_dataset upload_fails_env scenario_config))
   \<and> dataset_upload_response (snd (publish_dataset upload_fails_env scenario_config))
     = JObj [(''creation'', JObj [(''name'', JStr ''ds'')]),
             (''upload'', JObj [(''error'', JStr ''500 Server Error'')]),
             (''file_path'', JStr ''/app/datasets/c1.jsonl''),
             (''dataset_id'', JStr ''generatedsyntheticdatasetu1'')]"
  by (simp add: publish_dataset_def upload_fails_env_def truthy_def scenario_config_def
      create_dataset_def client_upload_dataset_def Let_def)

text \<open>The flag after the failed upload.\<close>

theorem publish_dataset_upload_failure_witness:
  "dataset_uploaded (snd (publish_dataset upload_fails_env scenario_config))"
  using publish_dataset_upload_failure by blast

end
